theory Spec2Isabelle
  imports Complex_Main "HOL-Library.Multiset"
begin

section \<open>Values, documents and texts\<close>

text \<open>
  The backend moves JSON-like values between the HTTP layer and a document store.
  A value is what \<^verbatim>\<open>json.loads\<close> produces for a request body, plus the store-native
  identifier that the document database attaches under the key \<^verbatim>\<open>_id\<close>.
  Numbers are modelled by their numeric value; the non-finite floats are not represented.
  Keys, enumeration literals and the text inside documents are \<open>string\<close>s: the code only
  ever compares them for equality.
\<close>

datatype val =
    JNull
  | JBool bool
  | JNum real
  | JStr string
  | JList "val list"
  | ObjectId nat

text \<open>A Python \<^verbatim>\<open>dict\<close> with string keys.\<close>

type_synonym document = "string \<rightharpoonup> val"

text \<open>
  Texts that the code slices (\<^verbatim>\<open>str(e)[:80]\<close>) are lists of Unicode code points, so that
  \<open>take\<close> counts what Python's slice counts. An exception is represented by its text
  \<^verbatim>\<open>str(e)\<close>.
\<close>

type_synonym pystr = "nat list"

definition ascii :: "string \<Rightarrow> pystr" where
  "ascii s = map of_char s"

section \<open>schemas.py: the declarative schemas\<close>

text \<open>
  Each Pydantic class is a table of field declarations, in the order of the source:
  the name, the annotated type, the default (\<^verbatim>\<open>...\<close> marks a required field) and the
  \<^verbatim>\<open>gt\<close> bound when one is given.
\<close>

datatype ftype =
    TStr
  | TFloat
  | TBool
  | TEmailStr
  | TLiteral "string list"
  | TList ftype
  | TOptional ftype

datatype default = Required | Default val | Default_factory_list

datatype field = Field (fname: string) (ftype: ftype) (fdefault: default) (fgt: "real option")

definition Program :: "field list" where
  "Program =
    [Field ''title'' TStr Required None,
     Field ''summary'' TStr Required None,
     Field ''problem_context'' (TOptional TStr) (Default JNull) None,
     Field ''approach'' (TOptional TStr) (Default JNull) None,
     Field ''activities'' (TOptional (TList TStr)) Default_factory_list None,
     Field ''beneficiaries'' (TOptional (TList TStr)) Default_factory_list None,
     Field ''expected_impact'' (TOptional TStr) (Default JNull) None,
     Field ''locations'' (TOptional (TList TStr)) Default_factory_list None,
     Field ''tags'' (TOptional (TList TStr)) Default_factory_list None,
     Field ''status'' (TOptional (TLiteral [''draft'', ''published''])) (Default (JStr ''published'')) None]"



definition DonationIntent :: "field list" where
  "DonationIntent =
    [Field ''amount'' TFloat Required (Some 0),
     Field ''currency'' TStr (Default (JStr ''USD'')) None,
     Field ''frequency'' (TLiteral [''one_time'', ''monthly'']) (Default (JStr ''one_time'')) None,
     Field ''fund'' (TOptional TStr) (Default JNull) None,
     Field ''first_name'' TStr Required None,
     Field ''last_name'' TStr Required None,
     Field ''email'' TEmailStr Required None,
     Field ''country'' (TOptional TStr) (Default JNull) None,
     Field ''message'' (TOptional TStr) (Default JNull) None,
     Field ''consent'' TBool Required None]"

definition VolunteerApplication :: "field list" where
  "VolunteerApplication =
    [Field ''name'' TStr Required None,
     Field ''email'' TEmailStr Required None,
     Field ''phone'' (TOptional TStr) (Default JNull) None,
     Field ''location'' (TOptional TStr) (Default JNull) None,
     Field ''role_interest'' (TOptional TStr) (Default JNull) None,
     Field ''availability'' (TOptional TStr) (Default JNull) None,
     Field ''experience'' (TOptional TStr) (Default JNull) None,
     Field ''references'' (TOptional TStr) (Default JNull) None,
     Field ''consent'' TBool Required None,
     Field ''status'' (TOptional (TLiteral [''received'', ''screening'', ''accepted'', ''declined'']))
       (Default (JStr ''received'')) None]"

definition PartnerInquiry :: "field list" where
  "PartnerInquiry =
    [Field ''organization'' TStr Required None,
     Field ''partner_type'' (TOptional TStr) (Default JNull) None,
     Field ''contact_name'' TStr Required None,
     Field ''email'' TEmailStr Required None,
     Field ''phone'' (TOptional TStr) (Default JNull) None,
     Field ''country'' (TOptional TStr) (Default JNull) None,
     Field ''collaboration_areas'' (TOptional TStr) (Default JNull) None,
     Field ''message'' (TOptional TStr) (Default JNull) None,
     Field ''compliance_ack'' TBool Required None,
     Field ''status'' (TOptional (TLiteral [''received'', ''in_discussion'', ''mou_draft'', ''closed'']))
       (Default (JStr ''received'')) None]"

definition ContactMessage :: "field list" where
  "ContactMessage =
    [Field ''topic'' (TOptional TStr) (Default JNull) None,
     Field ''name'' TStr Required None,
     Field ''email'' TEmailStr Required None,
     Field ''message'' TStr Required None,
     Field ''consent'' TBool Required None]"

section \<open>Validation of a request body against a schema\<close>

text \<open>
  What the declarations mean when the framework validates a body. A value conforms to
  an annotated type when it has that JSON type; a literal type admits exactly its listed
  strings; an optional type admits \<^verbatim>\<open>null\<close> as well. The syntax check behind
  \<^verbatim>\<open>EmailStr\<close> belongs to a library outside the repository and is the parameter \<open>em\<close>.
  The coercions of the validator's lax mode (a numeric string for a float, say) are not
  modelled: a value of another JSON type is reported as invalid.
\<close>

fun conforms :: "(string \<Rightarrow> bool) \<Rightarrow> ftype \<Rightarrow> val \<Rightarrow> bool" where
  "conforms em (TOptional t) v = (v = JNull \<or> conforms em t v)"
| "conforms em TStr (JStr s) = True"
| "conforms em TFloat (JNum x) = True"
| "conforms em TBool (JBool b) = True"
| "conforms em TEmailStr (JStr s) = em s"
| "conforms em (TLiteral vs) (JStr s) = (s \<in> set vs)"
| "conforms em (TList t) (JList xs) = list_all (conforms em t) xs"
| "conforms em _ _ = False"

datatype verr = Missing | Invalid | Greater_than

fun exceeds :: "real option \<Rightarrow> val \<Rightarrow> bool" where
  "exceeds (Some g) (JNum x) = (g < x)"
| "exceeds _ _ = True"

text \<open>
  One field: an absent key takes the default, or is an error when the field is
  required; a present value must conform to the type and pass the \<^verbatim>\<open>gt\<close> bound.
\<close>

definition validate_field :: "(string \<Rightarrow> bool) \<Rightarrow> field \<Rightarrow> document \<Rightarrow> verr + val" where
  "validate_field em f raw =
     (case raw (fname f) of
        None \<Rightarrow>
          (case fdefault f of
             Required \<Rightarrow> Inl Missing
           | Default v \<Rightarrow> Inr v
           | Default_factory_list \<Rightarrow> Inr (JList []))
      | Some v \<Rightarrow>
          if \<not> conforms em (ftype f) v then Inl Invalid
          else if \<not> exceeds (fgt f) v then Inl Greater_than
          else Inr v)"

text \<open>
  All fields: every error is collected under the name of its field; the validated record
  holds exactly the declared fields (keys of the body that the schema does not declare
  are ignored).
\<close>

fun validate_fields ::
  "(string \<Rightarrow> bool) \<Rightarrow> field list \<Rightarrow> document \<Rightarrow> (string \<times> verr) list \<times> document" where
  "validate_fields em [] raw = ([], Map.empty)"
| "validate_fields em (f # fs) raw =
     (case validate_fields em fs raw of
        (errs, doc) \<Rightarrow>
          (case validate_field em f raw of
             Inl e \<Rightarrow> ((fname f, e) # errs, doc)
           | Inr v \<Rightarrow> (errs, doc(fname f \<mapsto> v))))"

definition validate ::
  "(string \<Rightarrow> bool) \<Rightarrow> field list \<Rightarrow> document \<Rightarrow> (string \<times> verr) list + document" where
  "validate em schema raw =
     (case validate_fields em schema raw of
        ([], doc) \<Rightarrow> Inr doc
      | (e # errs, doc) \<Rightarrow> Inl (e # errs))"

section \<open>The document store adapter\<close>

text \<open>
  Modelled from the spec: the document store behind the adapter of \<^verbatim>\<open>database.py\<close>,
  which is not among the sources. In the state of the store, \<open>fault\<close> is the error text with which
  the store refuses an operation (the connection is unavailable, or the write is
  rejected), \<open>colls\<close> gives the documents of each collection in insertion order,
  \<open>next_id\<close> is the next identifier to assign. The spec leaves two things to the store,
  and both are fields here: \<open>store_order\<close> is the order in which the store hands out the
  matching records (insertion order or the store's default: no sort is specified), and
  \<open>nonpositive_limit\<close> is its answer to a query whose limit is not positive, of which
  the spec says nothing. \<open>inserts\<close> counts the calls of the insert operation; the store has
  no such field, it is kept to tell one attempt from several.
\<close>

record store =
  fault :: "pystr option"
  colls :: "string \<Rightarrow> document list"
  store_order :: "document list \<Rightarrow> document list"
  nonpositive_limit :: "int \<Rightarrow> document list \<Rightarrow> pystr + document list"
  next_id :: nat
  inserts :: nat

text \<open>
  Modelled from the spec: the identifier as a string, here the decimal digits of its number. How the store renders
  its identifiers is not specified; only that the result is a string.
\<close>

fun string_of_nat :: "nat \<Rightarrow> string" where
  "string_of_nat n =
     (if n < 10 then [''0123456789'' ! n]
      else string_of_nat (n div 10) @ [''0123456789'' ! (n mod 10)])"

declare string_of_nat.simps [simp del]

text \<open>
  Modelled from the spec: \<^verbatim>\<open>create_document\<close> of \<^verbatim>\<open>database.py\<close>, which is not among the
  sources. It serializes the record to a plain key-value structure, inserts it into the
  named collection and returns the newly assigned identifier as a string; it fails when
  the connection is unavailable or the write is rejected. The identifier is stored under
  the store-native key \<^verbatim>\<open>_id\<close>, the key that \<^verbatim>\<open>main.py\<close> removes.
\<close>

definition create_document :: "string \<Rightarrow> document \<Rightarrow> store \<Rightarrow> (pystr + string) \<times> store" where
  "create_document collection_name data st =
     (case fault st of
        Some e \<Rightarrow> (Inl e, st\<lparr>inserts := inserts st + 1\<rparr>)
      | None \<Rightarrow>
          (Inr (string_of_nat (next_id st)),
           st\<lparr>colls := (colls st)
                  (collection_name :=
                     colls st collection_name @ [data(''_id'' \<mapsto> ObjectId (next_id st))]),
              next_id := next_id st + 1,
              inserts := inserts st + 1\<rparr>))"

text \<open>
  Modelled from the spec: a filter is the dictionary of key-value pairs that a matching
  document must carry.
\<close>

definition matches :: "(string \<times> val) list \<Rightarrow> document \<Rightarrow> bool" where
  "matches filter_dict d = list_all (\<lambda>(k, v). d k = Some v) filter_dict"

text \<open>
  Modelled from the spec: \<^verbatim>\<open>get_documents\<close> of \<^verbatim>\<open>database.py\<close>, which is not among the
  sources. It returns up to \<open>limit\<close> matching records, in the order of the store, each
  including its assigned identifier; it fails when the connection is unavailable. For a
  limit that is not positive the answer is the store's.
\<close>

definition get_documents ::
  "store \<Rightarrow> string \<Rightarrow> (string \<times> val) list \<Rightarrow> int \<Rightarrow> pystr + document list" where
  "get_documents st collection_name filter_dict limit =
     (case fault st of
        Some e \<Rightarrow> Inl e
      | None \<Rightarrow>
          if 0 < limit
          then Inr (take (nat limit)
                 (store_order st (filter (matches filter_dict) (colls st collection_name))))
          else nonpositive_limit st limit
                 (store_order st (filter (matches filter_dict) (colls st collection_name))))"

section \<open>main.py: the listing endpoints\<close>

text \<open>
  The handlers use the adapter's query function, here the parameter \<open>gd\<close>. An argument
  is \<open>None\<close> when the request omits the query parameter, and the default of the signature
  applies. An exception of the query function is not caught and leaves the handler.
  \<^verbatim>\<open>d.pop("_id", None)\<close> removes the key from each document. What the framework
  does with the returned list afterwards (the response model of the route) is outside
  the handlers.
\<close>

definition list_programs ::
  "(string \<Rightarrow> (string \<times> val) list \<Rightarrow> int \<Rightarrow> pystr + document list) \<Rightarrow>
   int option \<Rightarrow> bool option \<Rightarrow> pystr + document list" where
  "list_programs gd limit_arg published_only_arg =
     (let limit = (case limit_arg of None \<Rightarrow> 20 | Some l \<Rightarrow> l);
          published_only = (case published_only_arg of None \<Rightarrow> True | Some b \<Rightarrow> b);
          filter_q = [];
          filter_q = (if published_only then filter_q @ [(''status'', JStr ''published'')]
                      else filter_q)
      in case gd ''program'' filter_q limit of
           Inl e \<Rightarrow> Inl e
         | Inr docs \<Rightarrow> Inr (map (\<lambda>d. d(''_id'' := None)) docs))"

definition list_stories ::
  "(string \<Rightarrow> (string \<times> val) list \<Rightarrow> int \<Rightarrow> pystr + document list) \<Rightarrow>
   int option \<Rightarrow> bool option \<Rightarrow> pystr + document list" where
  "list_stories gd limit_arg published_only_arg =
     (let limit = (case limit_arg of None \<Rightarrow> 12 | Some l \<Rightarrow> l);
          published_only = (case published_only_arg of None \<Rightarrow> True | Some b \<Rightarrow> b);
          filter_q = (if published_only then [(''status'', JStr ''published'')] else [])
      in case gd ''story'' filter_q limit of
           Inl e \<Rightarrow> Inl e
         | Inr docs \<Rightarrow> Inr (map (\<lambda>d. d(''_id'' := None)) docs))"

definition list_posts ::
  "(string \<Rightarrow> (string \<times> val) list \<Rightarrow> int \<Rightarrow> pystr + document list) \<Rightarrow>
   int option \<Rightarrow> bool option \<Rightarrow> pystr + document list" where
  "list_posts gd limit_arg published_only_arg =
     (let limit = (case limit_arg of None \<Rightarrow> 12 | Some l \<Rightarrow> l);
          published_only = (case published_only_arg of None \<Rightarrow> True | Some b \<Rightarrow> b);
          filter_q = (if published_only then [(''status'', JStr ''published'')] else [])
      in case gd ''post'' filter_q limit of
           Inl e \<Rightarrow> Inl e
         | Inr docs \<Rightarrow> Inr (map (\<lambda>d. d(''_id'' := None)) docs))"

text \<open>
  The routes declare a response model (\<^verbatim>\<open>response_model=List[Program]\<close>): the framework
  validates every returned document against the schema and sends the validated
  records, which hold exactly the declared fields. A document that fails makes the
  request fail with a server error, as does an exception that leaves the handler.
\<close>

datatype failure = Unhandled pystr | ResponseValidationError "(string \<times> verr) list"

fun validate_each ::
  "(string \<Rightarrow> bool) \<Rightarrow> field list \<Rightarrow> document list \<Rightarrow> (string \<times> verr) list + document list" where
  "validate_each em schema [] = Inr []"
| "validate_each em schema (d # ds) =
     (case validate em schema d of
        Inl errs \<Rightarrow>
          Inl (errs @ (case validate_each em schema ds of Inl others \<Rightarrow> others | Inr rs \<Rightarrow> []))
      | Inr r \<Rightarrow>
          (case validate_each em schema ds of
             Inl others \<Rightarrow> Inl others
           | Inr rs \<Rightarrow> Inr (r # rs)))"

definition response_model ::
  "(string \<Rightarrow> bool) \<Rightarrow> field list \<Rightarrow> pystr + document list \<Rightarrow> failure + document list" where
  "response_model em schema returned =
     (case returned of
        Inl e \<Rightarrow> Inl (Unhandled e)
      | Inr docs \<Rightarrow>
          (case validate_each em schema docs of
             Inl errs \<Rightarrow> Inl (ResponseValidationError errs)
           | Inr records \<Rightarrow> Inr records))"

definition get_api_programs ::
  "(string \<Rightarrow> bool) \<Rightarrow> (string \<Rightarrow> (string \<times> val) list \<Rightarrow> int \<Rightarrow> pystr + document list) \<Rightarrow>
   int option \<Rightarrow> bool option \<Rightarrow> failure + document list" where
  "get_api_programs em gd limit_arg published_only_arg =
     response_model em Program (list_programs gd limit_arg published_only_arg)"



text \<open>
  A stored document is a valid record of a schema when, without its identifier, it is a
  record that validation returns as it is: it holds the declared fields and nothing
  else, each with a value of its type.
\<close>

definition valid_record :: "(string \<Rightarrow> bool) \<Rightarrow> field list \<Rightarrow> document \<Rightarrow> bool" where
  "valid_record em schema d =
     (validate em schema (d(''_id'' := None)) = Inr (d(''_id'' := None)))"

section \<open>main.py: the intake endpoints\<close>

datatype response =
    Created string string
  | HTTPException nat pystr
  | RequestValidationError "(string \<times> verr) list"

fun status_code :: "response \<Rightarrow> nat" where
  "status_code (Created i m) = 200"
| "status_code (HTTPException c d) = c"
| "status_code (RequestValidationError errs) = 422"

text \<open>
  The handlers use the adapter's insert function, here the parameter \<open>cd\<close>, which
  returns the identifier or raises, and the store as it leaves it. Any exception becomes
  an \<^verbatim>\<open>HTTPException\<close> with status 500 and \<^verbatim>\<open>detail=str(e)\<close>.
\<close>

definition create_donation ::
  "(string \<Rightarrow> document \<Rightarrow> 's \<Rightarrow> (pystr + string) \<times> 's) \<Rightarrow> document \<Rightarrow> 's \<Rightarrow> response \<times> 's" where
  "create_donation cd intent st =
     (case cd ''donationintent'' intent st of
        (Inr inserted_id, st') \<Rightarrow> (Created inserted_id ''Donation intent recorded'', st')
      | (Inl e, st') \<Rightarrow> (HTTPException 500 e, st'))"

definition create_volunteer ::
  "(string \<Rightarrow> document \<Rightarrow> 's \<Rightarrow> (pystr + string) \<times> 's) \<Rightarrow> document \<Rightarrow> 's \<Rightarrow> response \<times> 's" where
  "create_volunteer cd apply st =
     (case cd ''volunteerapplication'' apply st of
        (Inr inserted_id, st') \<Rightarrow> (Created inserted_id ''Volunteer application received'', st')
      | (Inl e, st') \<Rightarrow> (HTTPException 500 e, st'))"

definition create_partner ::
  "(string \<Rightarrow> document \<Rightarrow> 's \<Rightarrow> (pystr + string) \<times> 's) \<Rightarrow> document \<Rightarrow> 's \<Rightarrow> response \<times> 's" where
  "create_partner cd inquiry st =
     (case cd ''partnerinquiry'' inquiry st of
        (Inr inserted_id, st') \<Rightarrow> (Created inserted_id ''Partner inquiry submitted'', st')
      | (Inl e, st') \<Rightarrow> (HTTPException 500 e, st'))"

definition create_contact ::
  "(string \<Rightarrow> document \<Rightarrow> 's \<Rightarrow> (pystr + string) \<times> 's) \<Rightarrow> document \<Rightarrow> 's \<Rightarrow> response \<times> 's" where
  "create_contact cd msg st =
     (case cd ''contactmessage'' msg st of
        (Inr inserted_id, st') \<Rightarrow> (Created inserted_id ''Message received'', st')
      | (Inl e, st') \<Rightarrow> (HTTPException 500 e, st'))"

text \<open>
  A route with a body parameter: the framework validates the body against the schema of
  the parameter and calls the handler with the validated record; when validation fails
  it answers with the errors and the handler is not called.
\<close>

definition post ::
  "(string \<Rightarrow> bool) \<Rightarrow> field list \<Rightarrow> (document \<Rightarrow> 's \<Rightarrow> response \<times> 's) \<Rightarrow>
   document \<Rightarrow> 's \<Rightarrow> response \<times> 's" where
  "post em schema handler body st =
     (case validate em schema body of
        Inl errs \<Rightarrow> (RequestValidationError errs, st)
      | Inr record \<Rightarrow> handler record st)"

definition post_api_donations where
  "post_api_donations em cd = post em DonationIntent (create_donation cd)"

definition post_api_volunteers where
  "post_api_volunteers em cd = post em VolunteerApplication (create_volunteer cd)"

definition post_api_partners where
  "post_api_partners em cd = post em PartnerInquiry (create_partner cd)"

definition post_api_contact where
  "post_api_contact em cd = post em ContactMessage (create_contact cd)"

section \<open>main.py: the diagnostic endpoint\<close>

text \<open>
  What the endpoint reads: the module-level handle \<^verbatim>\<open>db\<close> (\<open>None\<close> when no connection
  was set up) and the environment variable \<^verbatim>\<open>DATABASE_URL\<close>. Of a handle it uses the
  attribute \<^verbatim>\<open>name\<close> (reading it raises, or it is missing, or it has a value) and the call
  \<^verbatim>\<open>list_collection_names()\<close> (which raises or returns the names).
\<close>

record handle =
  name_attr :: "pystr + pystr option"
  list_collection_names :: "pystr + pystr list"

record environment =
  db :: "handle option"
  DATABASE_URL :: "pystr option"

record diagnostic =
  backend :: pystr
  database :: pystr
  database_url :: "pystr option"
  database_name :: "pystr option"
  connection_status :: pystr
  collections :: "pystr list"

definition check_mark :: pystr where "check_mark = [0x2705]"
definition cross_mark :: pystr where "cross_mark = [0x274C]"
definition warning_sign :: pystr where "warning_sign = [0x26A0, 0xFE0F]"

text \<open>The inner \<^verbatim>\<open>try\<close>: listing the collections, with its own handler.\<close>

definition probe_collections :: "handle \<Rightarrow> diagnostic \<Rightarrow> diagnostic" where
  "probe_collections h response =
     (case list_collection_names h of
        Inr collections' \<Rightarrow>
          response\<lparr>collections := take 20 collections',
                   database := check_mark @ ascii '' Connected & Working''\<rparr>
      | Inl e \<Rightarrow>
          response\<lparr>database := warning_sign @ ascii '' Connected but Error: '' @ take 80 e\<rparr>)"

text \<open>
  The body of the outer \<^verbatim>\<open>try\<close>: the response as far as it was filled in, and the
  exception that interrupted it, if any.
\<close>

definition test_database_try :: "environment \<Rightarrow> diagnostic \<Rightarrow> diagnostic \<times> pystr option" where
  "test_database_try env response =
     (case db env of
        Some h \<Rightarrow>
          (let response = response\<lparr>database := check_mark @ ascii '' Available''\<rparr>;
               response = response\<lparr>database_url :=
                 Some (if DATABASE_URL env \<noteq> None \<and> DATABASE_URL env \<noteq> Some []
                       then check_mark @ ascii '' Set'' else cross_mark @ ascii '' Not Set'')\<rparr>
           in case name_attr h of
                Inl e \<Rightarrow> (response, Some e)
              | Inr n \<Rightarrow>
                  (let response = response\<lparr>database_name :=
                         Some (case n of Some s \<Rightarrow> s | None \<Rightarrow> check_mark @ ascii '' Connected'')\<rparr>;
                       response = response\<lparr>connection_status := ascii ''Connected''\<rparr>
                   in (probe_collections h response, None)))
      | None \<Rightarrow>
          (response\<lparr>database := warning_sign @ ascii '' Available but not initialized''\<rparr>, None))"

definition test_database :: "environment \<Rightarrow> diagnostic" where
  "test_database env =
     (let response =
            \<lparr>backend = check_mark @ ascii '' Running'',
             database = cross_mark @ ascii '' Not Available'',
             database_url = None,
             database_name = None,
             connection_status = ascii ''Not Connected'',
             collections = []\<rparr>
      in case test_database_try env response of
           (response, None) \<Rightarrow> response
         | (response, Some e) \<Rightarrow>
             response\<lparr>database := cross_mark @ ascii '' Error: '' @ take 120 e\<rparr>)"

text \<open>The route: what a handler returns is sent with status 200.\<close>

definition get_test :: "environment \<Rightarrow> nat \<times> diagnostic" where
  "get_test env = (200, test_database env)"

section \<open>Sample inputs\<close>

text \<open>
  Concrete values at which the theorems below are instantiated. \<open>contains_at\<close>
  stands in for the address check there: an address contains the sign @.
\<close>

definition contains_at :: "string \<Rightarrow> bool" where
  "contains_at s = (CHR ''@'' \<in> set s)"

definition empty_store :: store where
  "empty_store =
     \<lparr>fault = None, colls = (\<lambda>c. []), store_order = (\<lambda>ds. ds),
      nonpositive_limit = (\<lambda>l ds. Inr ds), next_id = 0, inserts = 0\<rparr>"

definition sample_donation :: document where
  "sample_donation =
     [''amount'' \<mapsto> JNum 25, ''first_name'' \<mapsto> JStr ''Ada'', ''last_name'' \<mapsto> JStr ''Obi'',
      ''email'' \<mapsto> JStr ''ada@example.org'', ''consent'' \<mapsto> JBool True]"

definition sample_volunteer :: document where
  "sample_volunteer =
     [''name'' \<mapsto> JStr ''Ada Obi'', ''email'' \<mapsto> JStr ''ada@example.org'',
      ''consent'' \<mapsto> JBool True]"

definition sample_partner :: document where
  "sample_partner =
     [''organization'' \<mapsto> JStr ''Well Trust'', ''contact_name'' \<mapsto> JStr ''Ada Obi'',
      ''email'' \<mapsto> JStr ''ada@example.org'', ''compliance_ack'' \<mapsto> JBool True]"

definition sample_program_input :: document where
  "sample_program_input =
     [''title'' \<mapsto> JStr ''Clean water'', ''summary'' \<mapsto> JStr ''Wells for villages'']"

definition sample_program :: document where
  "sample_program =
     [''title'' \<mapsto> JStr ''Clean water'', ''summary'' \<mapsto> JStr ''Wells for villages'',
      ''problem_context'' \<mapsto> JNull, ''approach'' \<mapsto> JNull, ''activities'' \<mapsto> JList [],
      ''beneficiaries'' \<mapsto> JList [], ''expected_impact'' \<mapsto> JNull, ''locations'' \<mapsto> JList [],
      ''tags'' \<mapsto> JList [], ''status'' \<mapsto> JStr ''published'']"

definition story :: "nat \<Rightarrow> string \<Rightarrow> document" where
  "story n st = [''_id'' \<mapsto> ObjectId n, ''title'' \<mapsto> JStr ''Story'', ''status'' \<mapsto> JStr st]"

definition story_store :: store where
  "story_store =
     \<lparr>fault = None,
      colls = (\<lambda>c. [])(''story'' :=
        [story 0 ''published'', story 1 ''draft'', story 2 ''published'', story 3 ''published'',
         story 4 ''published'', story 5 ''published'']),
      store_order = (\<lambda>ds. ds), nonpositive_limit = (\<lambda>l ds. Inr ds),
      next_id = 6, inserts = 6\<rparr>"



definition failing_store :: "pystr \<Rightarrow> store" where
  "failing_store e =
     \<lparr>fault = Some e, colls = (\<lambda>c. []), store_order = (\<lambda>ds. ds),
      nonpositive_limit = (\<lambda>l ds. Inr ds), next_id = 0, inserts = 0\<rparr>"

definition long_text :: pystr where
  "long_text = replicate 130 120"

definition no_database :: environment where
  "no_database = \<lparr>db = None, DATABASE_URL = None\<rparr>"

section \<open>Properties of validation\<close>

text \<open>An error of one field is reported by the validation of the whole body.\<close>

lemma validate_fields_error:
  "f \<in> set fs \<Longrightarrow> validate_field em f raw = Inl e \<Longrightarrow>
   (fname f, e) \<in> set (fst (validate_fields em fs raw))"
  by (induction fs) (auto split: prod.splits sum.splits)

lemma validate_error:
  assumes "f \<in> set schema" and "validate_field em f raw = Inl e"
  shows "\<exists>errs. validate em schema raw = Inl errs \<and> (fname f, e) \<in> set errs"
proof -
  obtain errs doc where vf: "validate_fields em schema raw = (errs, doc)"
    by (cases "validate_fields em schema raw")
  from validate_fields_error [OF assms] vf have mem: "(fname f, e) \<in> set errs"
    by simp
  then obtain x xs where "errs = x # xs"
    by (cases errs) auto
  with vf mem show ?thesis
    by (simp add: validate_def)
qed

lemma post_rejects:
  assumes "f \<in> set schema" and "validate_field em f body = Inl e"
  shows "\<exists>errs. post em schema handler body st = (RequestValidationError errs, st) \<and>
                (fname f, e) \<in> set errs"
  using validate_error [OF assms] by (auto simp: post_def)

text \<open>
  A validated record has exactly the declared fields, and a submitted value that was
  accepted is stored as it was submitted.
\<close>

lemma validate_fields_dom:
  "fst (validate_fields em fs raw) = [] \<Longrightarrow> dom (snd (validate_fields em fs raw)) = fname ` set fs"
  by (induction fs) (auto split: prod.splits sum.splits)

lemma validate_field_submitted:
  "validate_field em f raw = Inr v \<Longrightarrow> raw (fname f) = Some w \<Longrightarrow> v = w"
  by (auto simp: validate_field_def split: if_splits)

lemma validate_fields_value:
  "fst (validate_fields em fs raw) = [] \<Longrightarrow> f \<in> set fs \<Longrightarrow> distinct (map fname fs) \<Longrightarrow>
   validate_field em f raw = Inr (the (snd (validate_fields em fs raw) (fname f)))"
proof (induction fs)
  case Nil
  then show ?case by simp
next
  case (Cons a fs)
  show ?case
  proof (cases "f = a")
    case True
    with Cons.prems show ?thesis
      by (auto split: prod.splits sum.splits)
  next
    case False
    with Cons.prems have "f \<in> set fs" by simp
    moreover from this Cons.prems have "fname f \<noteq> fname a"
      by (metis distinct.simps(2) image_eqI list.simps(9) set_map)
    ultimately have "f \<in> set fs" and "fname f \<noteq> fname a" by simp_all
    with Cons show ?thesis
      by (auto split: prod.splits sum.splits)
  qed
qed

lemma validate_dom:
  "validate em schema raw = Inr doc \<Longrightarrow> dom doc = fname ` set schema"
  using validate_fields_dom [of em schema raw]
  by (auto simp: validate_def split: prod.splits list.splits)

lemma validate_submitted:
  assumes "validate em schema raw = Inr doc" and "f \<in> set schema"
    and "distinct (map fname schema)" and "raw (fname f) = Some w"
  shows "doc (fname f) = Some w"
proof -
  from assms(1) have e: "fst (validate_fields em schema raw) = []"
    and d: "snd (validate_fields em schema raw) = doc"
    by (auto simp: validate_def split: prod.splits list.splits)
  from validate_dom [OF assms(1)] assms(2) obtain v where v: "doc (fname f) = Some v"
    by force
  from validate_fields_value [OF e assms(2,3)] d v
  have "validate_field em f raw = Inr v" by simp
  from validate_field_submitted [OF this assms(4)] v show ?thesis by simp
qed

lemma conforms_literal:
  "conforms em (TLiteral vs) v = (v \<in> JStr ` set vs)"
  by (cases v) auto

text \<open>
  A validated record passes validation again and comes back as it is, provided the
  defaults of the schema are values of their fields' types.
\<close>

lemma validate_record_field:
  assumes "validate em schema raw = Inr p" and "f \<in> set schema"
    and "distinct (map fname schema)"
  shows "\<exists>v. p (fname f) = Some v \<and> validate_field em f raw = Inr v"
proof -
  from assms(1) have e: "fst (validate_fields em schema raw) = []"
    and d: "snd (validate_fields em schema raw) = p"
    by (auto simp: validate_def split: prod.splits list.splits)
  from validate_dom [OF assms(1)] assms(2) obtain v where v: "p (fname f) = Some v"
    by force
  from validate_fields_value [OF e assms(2,3)] d v
  have "validate_field em f raw = Inr v" by simp
  with v show ?thesis by simp
qed

lemma validate_field_conforms:
  assumes "validate_field em f raw = Inr v"
    and "\<And>d. validate_field em f Map.empty = Inr d \<Longrightarrow>
          conforms em (ftype f) d \<and> exceeds (fgt f) d"
  shows "conforms em (ftype f) v \<and> exceeds (fgt f) v"
proof (cases "raw (fname f)")
  case None
  with assms(1) have "validate_field em f Map.empty = Inr v"
    by (simp add: validate_field_def)
  then show ?thesis by (rule assms(2))
next
  case (Some w)
  with assms(1) show ?thesis
    by (auto simp: validate_field_def split: if_splits)
qed

lemma validate_fields_accepts:
  "\<forall>f \<in> set fs. \<exists>v. validate_field em f raw = Inr v \<Longrightarrow>
   fst (validate_fields em fs raw) = []"
  by (induction fs) (auto split: prod.splits sum.splits)

lemma validate_idempotent:
  assumes "validate em schema raw = Inr p"
    and "distinct (map fname schema)"
    and "\<And>f d. f \<in> set schema \<Longrightarrow> validate_field em f Map.empty = Inr d \<Longrightarrow>
          conforms em (ftype f) d \<and> exceeds (fgt f) d"
  shows "validate em schema p = Inr p"
proof -
  have again: "validate_field em f p = Inr v"
    if "f \<in> set schema" and "p (fname f) = Some v" and "validate_field em f raw = Inr v"
    for f v
    using validate_field_conforms [OF that(3) assms(3) [OF that(1)]] that(2)
    by (simp add: validate_field_def)
  have "\<exists>v. validate_field em f p = Inr v" if "f \<in> set schema" for f
    using validate_record_field [OF assms(1) that assms(2)] again [OF that] by blast
  then have "\<forall>f \<in> set schema. \<exists>v. validate_field em f p = Inr v"
    by blast
  then have ok: "fst (validate_fields em schema p) = []"
    by (rule validate_fields_accepts)
  then obtain q where q: "validate em schema p = Inr q"
    by (cases "validate_fields em schema p") (simp add: validate_def)
  have "q k = p k" for k
  proof (cases "k \<in> fname ` set schema")
    case True
    then obtain f where f: "f \<in> set schema" and k: "k = fname f"
      by auto
    from validate_record_field [OF assms(1) f assms(2)]
    obtain v where v: "p (fname f) = Some v" "validate_field em f raw = Inr v"
      by blast
    from validate_record_field [OF q f assms(2)]
    obtain w where w: "q (fname f) = Some w" "validate_field em f p = Inr w"
      by blast
    from again [OF f v] w(2) have "w = v"
      by simp
    with v w k show ?thesis
      by simp
  next
    case False
    with validate_dom [OF assms(1)] validate_dom [OF q] show ?thesis
      by (metis domIff)
  qed
  then have "q = p"
    by (rule ext)
  with q show ?thesis
    by simp
qed

text \<open>
  Changing the value submitted under one key changes the validated record at that key
  only, as long as the field accepts the new value.
\<close>

lemma validate_field_other_key:
  "fname g \<noteq> k \<Longrightarrow> validate_field em g (raw(k \<mapsto> v)) = validate_field em g (raw(k := None))"
  by (simp add: validate_field_def)

lemma validate_fields_override:
  assumes "\<forall>g \<in> set fs.
      if fname g = k
      then validate_field em g new = Inr v \<and> (\<exists>d. validate_field em g old = Inr d)
      else validate_field em g new = validate_field em g old"
  shows "fst (validate_fields em fs new) = fst (validate_fields em fs old) \<and>
         snd (validate_fields em fs new) =
           (if k \<in> fname ` set fs
            then (snd (validate_fields em fs old))(k \<mapsto> v)
            else snd (validate_fields em fs old))"
  using assms
proof (induction fs)
  case Nil
  show ?case by simp
next
  case (Cons a fs)
  obtain errs doc where old: "validate_fields em fs old = (errs, doc)"
    by (cases "validate_fields em fs old")
  from Cons old
  have new: "validate_fields em fs new =
      (errs, if k \<in> fname ` set fs then doc(k \<mapsto> v) else doc)"
    by (simp add: prod_eq_iff)
  show ?case
  proof (cases "fname a = k")
    case True
    with Cons.prems obtain d where "validate_field em a new = Inr v"
      and "validate_field em a old = Inr d"
      by auto
    with True old new show ?thesis
      by (auto simp: fun_eq_iff)
  next
    case False
    with Cons.prems have "validate_field em a new = validate_field em a old"
      by simp
    with False old new show ?thesis
      by (auto split: sum.splits simp: fun_upd_twist)
  qed
qed

lemma validate_override:
  assumes "validate em schema (raw(k := None)) = Inr r"
    and "f \<in> set schema" and "fname f = k"
    and "\<forall>g \<in> set schema. fname g = k \<longrightarrow>
      validate_field em g (raw(k \<mapsto> v)) = Inr v \<and>
      (\<exists>d. validate_field em g (raw(k := None)) = Inr d)"
  shows "validate em schema (raw(k \<mapsto> v)) = Inr (r(k \<mapsto> v))"
proof -
  from assms(4) have "\<forall>g \<in> set schema.
      if fname g = k
      then validate_field em g (raw(k \<mapsto> v)) = Inr v \<and>
           (\<exists>d. validate_field em g (raw(k := None)) = Inr d)
      else validate_field em g (raw(k \<mapsto> v)) = validate_field em g (raw(k := None))"
    by (simp add: validate_field_other_key)
  from validate_fields_override [OF this]
  have "fst (validate_fields em schema (raw(k \<mapsto> v))) =
          fst (validate_fields em schema (raw(k := None)))"
    and "snd (validate_fields em schema (raw(k \<mapsto> v))) =
           (if k \<in> fname ` set schema
            then (snd (validate_fields em schema (raw(k := None))))(k \<mapsto> v)
            else snd (validate_fields em schema (raw(k := None))))"
    by (rule conjunct1, rule conjunct2)
  moreover from assms(1) have "fst (validate_fields em schema (raw(k := None))) = []"
    and "snd (validate_fields em schema (raw(k := None))) = r"
    by (auto simp: validate_def split: prod.splits list.splits)
  moreover from assms(2,3) have "k \<in> fname ` set schema"
    by auto
  ultimately have "validate_fields em schema (raw(k \<mapsto> v)) = ([], r(k \<mapsto> v))"
    by (simp add: prod_eq_iff)
  then show ?thesis
    by (simp add: validate_def)
qed

lemma null_status_valid:
  assumes "schema = VolunteerApplication \<or> schema = PartnerInquiry"
    and "body ''status'' = Some JNull"
    and "validate em schema (body(''status'' := None)) = Inr r"
  shows "validate em schema body = Inr (r(''status'' \<mapsto> JNull))"
proof -
  from assms(1) have "''status'' \<in> fname ` set schema"
    by (auto simp: VolunteerApplication_def PartnerInquiry_def)
  then obtain f where mem: "f \<in> set schema" and name: "fname f = ''status''"
    by (metis imageE)
  from assms(1) have "\<forall>g \<in> set schema. fname g = ''status'' \<longrightarrow>
      validate_field em g (body(''status'' \<mapsto> JNull)) = Inr JNull \<and>
      (\<exists>d. validate_field em g (body(''status'' := None)) = Inr d)"
    by (auto simp: VolunteerApplication_def PartnerInquiry_def validate_field_def)
  from validate_override [OF assms(3) mem name this] assms(2) show ?thesis
    by (simp add: fun_upd_idem)
qed

text \<open>A value outside the enumeration of a literal field is refused.\<close>

lemma outside_enumeration_rejected:
  assumes "(endpoint, fld, literals, optional) \<in>
      {(post_api_donations em cd, ''frequency'', [''one_time'', ''monthly''], False),
       (post_api_volunteers em cd, ''status'',
          [''received'', ''screening'', ''accepted'', ''declined''], True),
       (post_api_partners em cd, ''status'',
          [''received'', ''in_discussion'', ''mou_draft'', ''closed''], True)}"
    and "body fld = Some v"
    and "v \<notin> JStr ` set literals"
    and "optional \<longrightarrow> v \<noteq> JNull"
  shows "\<exists>errs. endpoint body st = (RequestValidationError errs, st) \<and>
                (fld, Invalid) \<in> set errs"
proof -
  from assms(1) consider
    (donation) "endpoint = post_api_donations em cd" "fld = ''frequency''"
      "literals = [''one_time'', ''monthly'']" "\<not> optional"
  | (volunteer) "endpoint = post_api_volunteers em cd" "fld = ''status''"
      "literals = [''received'', ''screening'', ''accepted'', ''declined'']" "optional"
  | (partner) "endpoint = post_api_partners em cd" "fld = ''status''"
      "literals = [''received'', ''in_discussion'', ''mou_draft'', ''closed'']" "optional"
    by auto
  then show ?thesis
  proof cases
    case donation
    let ?f = "Field ''frequency'' (TLiteral literals) (Default (JStr ''one_time'')) None"
    have mem: "?f \<in> set DonationIntent"
      by (simp add: DonationIntent_def donation)
    from assms(2,3) have bad: "validate_field em ?f body = Inl Invalid"
      by (simp add: validate_field_def conforms_literal donation)
    from post_rejects [OF mem bad] show ?thesis
      by (simp add: donation post_api_donations_def)
  next
    case volunteer
    let ?f = "Field ''status'' (TOptional (TLiteral literals)) (Default (JStr ''received'')) None"
    have mem: "?f \<in> set VolunteerApplication"
      by (simp add: VolunteerApplication_def volunteer)
    from assms(2,3,4) have bad: "validate_field em ?f body = Inl Invalid"
      by (simp add: validate_field_def conforms_literal volunteer)
    from post_rejects [OF mem bad] show ?thesis
      by (simp add: volunteer post_api_volunteers_def)
  next
    case partner
    let ?f = "Field ''status'' (TOptional (TLiteral literals)) (Default (JStr ''received'')) None"
    have mem: "?f \<in> set PartnerInquiry"
      by (simp add: PartnerInquiry_def partner)
    from assms(2,3,4) have bad: "validate_field em ?f body = Inl Invalid"
      by (simp add: validate_field_def conforms_literal partner)
    from post_rejects [OF mem bad] show ?thesis
      by (simp add: partner post_api_partners_def)
  qed
qed

section \<open>The listing handlers on the store\<close>

text \<open>
  On a store that answers, and for a positive limit, a handler returns the first
  \<open>limit\<close> matching documents in the order of the store, each without its \<^verbatim>\<open>_id\<close>. The
  response model lets a list of valid records through as it is.
\<close>

lemma matches_published:
  "matches [(''status'', JStr ''published'')] = (\<lambda>d. d ''status'' = Some (JStr ''published''))"
  by (rule ext) (simp add: matches_def)

lemma matches_nothing: "filter (matches []) ds = ds"
  by (simp add: matches_def)

lemma listing_store:
  assumes "(handler, coll) \<in>
      {(list_programs, ''program''), (list_stories, ''story''), (list_posts, ''post'')}"
    and "fault st = None"
    and "0 < limit"
  shows "handler (get_documents st) (Some limit) (Some True) =
     Inr (map (\<lambda>d. d(''_id'' := None))
            (take (nat limit)
               (store_order st
                  (filter (\<lambda>d. d ''status'' = Some (JStr ''published'')) (colls st coll)))))"
  using assms
  by (auto simp: list_programs_def list_stories_def list_posts_def get_documents_def
      matches_published)

lemma listing_store_all:
  assumes "fault st = None" and "0 < limit"
  shows "list_programs (get_documents st) (Some limit) (Some False) =
     Inr (map (\<lambda>d. d(''_id'' := None))
            (take (nat limit) (store_order st (colls st ''program''))))"
  using assms
  by (simp add: list_programs_def get_documents_def matches_nothing)

lemma validate_each_valid:
  "(\<And>d. d \<in> set ds \<Longrightarrow> validate em schema d = Inr d) \<Longrightarrow> validate_each em schema ds = Inr ds"
  by (induction ds) simp_all

lemma response_model_valid:
  assumes "\<And>d. d \<in> set ds \<Longrightarrow> validate em schema d = Inr d"
  shows "response_model em schema (Inr ds) = Inr ds"
  using validate_each_valid [of ds em schema] assms
  by (simp add: response_model_def)



text \<open>The samples: what validation makes of them.\<close>

lemma sample_program_valid:
  "validate em Program sample_program_input = Inr sample_program"
  by (simp add: validate_def Program_def validate_field_def sample_program_input_def
      sample_program_def fun_eq_iff)

lemma program_has_no_id: "''_id'' \<notin> fname ` set Program"
  by (simp add: Program_def)

lemma Program_distinct: "distinct (map fname Program)"
  by (simp add: Program_def)

lemma Program_defaults:
  "f \<in> set Program \<Longrightarrow> validate_field em f Map.empty = Inr d \<Longrightarrow>
   conforms em (ftype f) d \<and> exceeds (fgt f) d"
  by (auto simp: Program_def validate_field_def)


lemma sample_donation_accepted:
  "fst (post_api_donations contains_at create_document sample_donation empty_store) =
     Created ''0'' ''Donation intent recorded''"
  by (simp add: post_api_donations_def post_def validate_def DonationIntent_def
      validate_field_def sample_donation_def empty_store_def create_donation_def
      create_document_def contains_at_def string_of_nat.simps)

lemma sample_volunteer_accepted:
  "fst (post_api_volunteers contains_at create_document sample_volunteer empty_store) =
     Created ''0'' ''Volunteer application received''"
  by (simp add: post_api_volunteers_def post_def validate_def VolunteerApplication_def
      validate_field_def sample_volunteer_def empty_store_def create_volunteer_def
      create_document_def contains_at_def string_of_nat.simps)

lemma sample_partner_accepted:
  "fst (post_api_partners contains_at create_document sample_partner empty_store) =
     Created ''0'' ''Partner inquiry submitted''"
  by (simp add: post_api_partners_def post_def validate_def PartnerInquiry_def
      validate_field_def sample_partner_def empty_store_def create_partner_def
      create_document_def contains_at_def string_of_nat.simps)

lemma sample_partner_validates:
  "\<exists>validated. validate contains_at PartnerInquiry (sample_partner(''status'' := None)) = Inr validated"
  by (simp add: validate_def PartnerInquiry_def validate_field_def sample_partner_def
      contains_at_def)

section \<open>The listing endpoints\<close>



text \<open>
  C2, as the code has it. A valid program is inserted into a store that answers and
  holds valid programs, and the programs are then listed with \<^verbatim>\<open>published_only=false\<close> and
  a limit above the size of the collection. The listing holds the stored programs and
  the validated record of the new one: it has exactly the fields of the schema, each
  submitted field with the submitted value and every other field with the default of
  the schema. The identifier that the store assigned is returned by the insert and is
  not part of the listed record.
\<close>

theorem program_round_trip:
  assumes "validate em Program raw = Inr p"
    and "fault st = None"
    and "\<forall>ds. mset (store_order st ds) = mset ds"
    and "\<forall>d \<in> set (colls st ''program''). valid_record em Program d"
    and "int (length (colls st ''program'')) < limit"
  shows "\<exists>st' docs.
     create_document ''program'' p st = (Inr (string_of_nat (next_id st)), st') \<and>
     get_api_programs em (get_documents st') (Some limit) (Some False) = Inr docs \<and>
     mset docs = mset (map (\<lambda>d. d(''_id'' := None)) (colls st ''program'')) + {#p#} \<and>
     p \<in> set docs \<and>
     p ''_id'' = None \<and>
     dom p = fname ` set Program \<and>
     (\<forall>f \<in> set Program.
        p (fname f) =
          (case raw (fname f) of
             Some v \<Rightarrow> Some v
           | None \<Rightarrow>
               (case fdefault f of
                  Default v \<Rightarrow> Some v
                | Default_factory_list \<Rightarrow> Some (JList [])
                | Required \<Rightarrow> None)))"
proof -
  let ?new = "p(''_id'' \<mapsto> ObjectId (next_id st))"
  let ?st' = "st\<lparr>colls := (colls st)(''program'' := colls st ''program'' @ [?new]),
                next_id := next_id st + 1, inserts := inserts st + 1\<rparr>"
  let ?all = "colls st ''program'' @ [?new]"
  let ?docs = "map (\<lambda>d. d(''_id'' := None)) (store_order st ?all)"
  from assms(2) have created:
    "create_document ''program'' p st = (Inr (string_of_nat (next_id st)), ?st')"
    by (simp add: create_document_def)
  have dom_p: "dom p = fname ` set Program"
    by (rule validate_dom [OF assms(1)])
  with program_has_no_id have no_id: "p ''_id'' = None"
    by blast
  then have stripped: "?new(''_id'' := None) = p"
    by (simp add: fun_upd_idem)
  have again: "validate em Program p = Inr p"
    using assms(1) Program_distinct Program_defaults by (rule validate_idempotent)
  from assms(3) have order: "mset (store_order st ?all) = mset ?all"
    by simp
  then have len: "length (store_order st ?all) = length ?all"
    by (rule mset_eq_length)
  from order have members: "set (store_order st ?all) = set ?all"
    by (rule mset_eq_setD)
  have valid: "validate em Program d = Inr d" if "d \<in> set ?docs" for d
  proof -
    from that have "d \<in> (\<lambda>d. d(''_id'' := None)) ` set (store_order st ?all)"
      by (simp only: set_map)
    then obtain s where "s \<in> set (store_order st ?all)" and d: "d = s(''_id'' := None)"
      by (rule imageE)
    with members have s: "s \<in> set ?all"
      by (simp only:)
    show ?thesis
    proof (cases "s = ?new")
      case True
      with d stripped again show ?thesis
        by simp
    next
      case False
      with s have "s \<in> set (colls st ''program'')"
        by simp
      with assms(4) have "valid_record em Program s"
        by simp
      with d show ?thesis
        by (simp add: valid_record_def)
    qed
  qed
  from assms(2) have "fault ?st' = None"
    by simp
  moreover from assms(5) have positive: "0 < limit"
    by simp
  ultimately have "list_programs (get_documents ?st') (Some limit) (Some False) =
      Inr (map (\<lambda>d. d(''_id'' := None))
             (take (nat limit) (store_order ?st' (colls ?st' ''program''))))"
    by (rule listing_store_all)
  moreover from assms(5) len have "take (nat limit) (store_order st ?all) = store_order st ?all"
    by simp
  ultimately have "list_programs (get_documents ?st') (Some limit) (Some False) = Inr ?docs"
    by simp
  with response_model_valid [of ?docs em Program, OF valid]
  have listed: "get_api_programs em (get_documents ?st') (Some limit) (Some False) = Inr ?docs"
    by (simp add: get_api_programs_def)
  from order stripped
  have bag: "mset ?docs = mset (map (\<lambda>d. d(''_id'' := None)) (colls st ''program'')) + {#p#}"
    by (simp only: mset_map mset_append image_mset_union mset.simps image_mset_single
        image_mset_empty image_mset_add_mset)
  then have "p \<in># mset ?docs"
    by simp
  then have member: "p \<in> set ?docs"
    by (simp only: set_mset_mset)
  have fields: "p (fname f) =
      (case raw (fname f) of
         Some v \<Rightarrow> Some v
       | None \<Rightarrow>
           (case fdefault f of
              Default v \<Rightarrow> Some v
            | Default_factory_list \<Rightarrow> Some (JList [])
            | Required \<Rightarrow> None))" if "f \<in> set Program" for f
    using validate_record_field [OF assms(1) that Program_distinct]
    by (auto simp: validate_field_def split: option.splits default.splits if_splits)
  from created listed bag member no_id dom_p fields show ?thesis
    by blast
qed

theorem program_round_trip_witness:
  "validate contains_at Program sample_program_input = Inr sample_program \<and>
   fault empty_store = None \<and>
   (\<forall>ds. mset (store_order empty_store ds) = mset ds) \<and>
   colls empty_store ''program'' = [] \<and>
   (\<exists>st' docs.
      create_document ''program'' sample_program empty_store = (Inr ''0'', st') \<and>
      get_api_programs contains_at (get_documents st') (Some 20) (Some False) = Inr docs \<and>
      docs = [sample_program] \<and>
      sample_program ''_id'' = None \<and>
      sample_program ''title'' = sample_program_input ''title'' \<and>
      sample_program ''tags'' = Some (JList []) \<and>
      sample_program ''status'' = Some (JStr ''published''))"
proof -
  have valid: "validate contains_at Program sample_program_input = Inr sample_program"
    by (rule sample_program_valid)
  have answers: "fault empty_store = None"
    and order: "\<forall>ds. mset (store_order empty_store ds) = mset ds"
    and none: "colls empty_store ''program'' = []"
    and first: "string_of_nat (next_id empty_store) = ''0''"
    by (simp_all add: empty_store_def string_of_nat.simps)
  have fields: "sample_program ''title'' = sample_program_input ''title''"
    "sample_program ''tags'' = Some (JList [])"
    "sample_program ''status'' = Some (JStr ''published'')"
    by (simp_all add: sample_program_def sample_program_input_def)
  from none have "\<forall>d \<in> set (colls empty_store ''program''). valid_record contains_at Program d"
    and "int (length (colls empty_store ''program'')) < 20"
    by simp_all
  from program_round_trip [OF valid answers order this] none first
  have "\<exists>st' docs.
      create_document ''program'' sample_program empty_store = (Inr ''0'', st') \<and>
      get_api_programs contains_at (get_documents st') (Some 20) (Some False) = Inr docs \<and>
      docs = [sample_program] \<and>
      sample_program ''_id'' = None"
    by auto
  with valid answers order none fields show ?thesis
    by simp
qed

text \<open>
  The sample program is inserted into the empty store, where it is stored with its
  identifier, and listed: the listed record has the ten fields of the schema and no
  \<^verbatim>\<open>_id\<close>, so it carries no identifier.
\<close>

theorem listed_program_carries_no_identifier:
  "fst (create_document ''program'' sample_program empty_store) = Inr ''0'' \<and>
   map (\<lambda>d. d ''_id'')
     (colls (snd (create_document ''program'' sample_program empty_store)) ''program'') =
     [Some (ObjectId 0)] \<and>
   get_api_programs contains_at
     (get_documents (snd (create_document ''program'' sample_program empty_store)))
     (Some 20) (Some False) = Inr [sample_program] \<and>
   sample_program ''_id'' = None \<and>
   dom sample_program =
     {''title'', ''summary'', ''problem_context'', ''approach'', ''activities'',
      ''beneficiaries'', ''expected_impact'', ''locations'', ''tags'', ''status''}"
proof -
  have no_id: "sample_program ''_id'' = None"
    by (simp add: sample_program_def)
  have again: "validate contains_at Program sample_program = Inr sample_program"
    using sample_program_valid Program_distinct Program_defaults by (rule validate_idempotent)
  have "fault (snd (create_document ''program'' sample_program empty_store)) = None"
    by (simp add: create_document_def empty_store_def)
  from listing_store_all [OF this, of 20] no_id
  have "list_programs (get_documents (snd (create_document ''program'' sample_program empty_store)))
     (Some 20) (Some False) = Inr [sample_program]"
    by (simp add: create_document_def empty_store_def fun_upd_idem)
  with again have "get_api_programs contains_at
     (get_documents (snd (create_document ''program'' sample_program empty_store)))
     (Some 20) (Some False) = Inr [sample_program]"
    by (simp add: get_api_programs_def response_model_def)
  moreover have "fst (create_document ''program'' sample_program empty_store) = Inr ''0''"
    by (simp add: create_document_def empty_store_def string_of_nat.simps)
  moreover have "map (\<lambda>d. d ''_id'')
     (colls (snd (create_document ''program'' sample_program empty_store)) ''program'') =
     [Some (ObjectId 0)]"
    by (simp add: create_document_def empty_store_def)
  moreover have "dom sample_program =
     {''title'', ''summary'', ''problem_context'', ''approach'', ''activities'',
      ''beneficiaries'', ''expected_impact'', ''locations'', ''tags'', ''status''}"
    by (auto simp: sample_program_def)
  ultimately show ?thesis
    using no_id by simp
qed

text \<open>
  C9. When the request omits \<open>limit\<close>, a listing is the one for the limit 20 for
  programs and 12 for stories and posts; when it omits \<open>published_only\<close>, the listing is
  the one for \<open>published_only=true\<close>.
\<close>

theorem listing_defaults:
  "list_programs gd None p = list_programs gd (Some 20) p \<and>
   list_programs gd l None = list_programs gd l (Some True) \<and>
   list_stories gd None p = list_stories gd (Some 12) p \<and>
   list_stories gd l None = list_stories gd l (Some True) \<and>
   list_posts gd None p = list_posts gd (Some 12) p \<and>
   list_posts gd l None = list_posts gd l (Some True)"
  by (simp add: list_programs_def list_stories_def list_posts_def)

theorem listing_defaults_witness:
  "list_stories (get_documents story_store) None None =
     list_stories (get_documents story_store) (Some 12) (Some True) \<and>
   (\<exists>docs. list_stories (get_documents story_store) None None = Inr docs \<and> length docs = 5)"
proof -
  from listing_defaults [of "get_documents story_store" None "Some 12"]
  have "list_stories (get_documents story_store) None None =
     list_stories (get_documents story_store) (Some 12) (Some True)"
    by simp
  moreover from listing_store [of list_stories "''story''" story_store 12]
  have "\<exists>docs. list_stories (get_documents story_store) (Some 12) (Some True) = Inr docs \<and>
     length docs = 5"
    by (simp add: story_store_def story_def)
  ultimately show ?thesis
    by simp
qed

text \<open>
  C10. Whatever the query function returns, no record that a listing handler returns
  has the key \<^verbatim>\<open>_id\<close>.
\<close>

theorem listing_removes_id:
  assumes "handler \<in> {list_programs, list_stories, list_posts}"
    and "handler gd limit_arg published_only_arg = Inr docs"
  shows "\<forall>d \<in> set docs. d ''_id'' = None"
  using assms
  by (auto simp: list_programs_def list_stories_def list_posts_def Let_def
      split: sum.splits)

theorem listing_removes_id_witness:
  "list_stories (get_documents story_store) (Some 1) (Some False) =
     Inr [[''title'' \<mapsto> JStr ''Story'', ''status'' \<mapsto> JStr ''published'']] \<and>
   [''title'' \<mapsto> JStr ''Story'', ''status'' \<mapsto> JStr ''published''] ''_id'' = None"
proof -
  have eq: "list_stories (get_documents story_store) (Some 1) (Some False) =
     Inr [[''title'' \<mapsto> JStr ''Story'', ''status'' \<mapsto> JStr ''published'']]"
    by (simp add: list_stories_def get_documents_def story_store_def story_def matches_def)
  from listing_removes_id [of list_stories, OF _ eq] eq show ?thesis
    by simp
qed

section \<open>The intake endpoints reject invalid bodies\<close>

text \<open>
  C3. A donation whose amount is a number less than or equal to 0 fails validation:
  the endpoint answers with a validation error naming the amount, the insert function
  is never called, and the store is returned as it was.
\<close>

theorem nonpositive_amount_rejected:
  assumes "body ''amount'' = Some (JNum a)" and "a \<le> 0"
  shows "\<exists>errs. post_api_donations em cd body st = (RequestValidationError errs, st) \<and>
                (''amount'', Greater_than) \<in> set errs"
proof -
  let ?f = "Field ''amount'' TFloat Required (Some 0)"
  have "?f \<in> set DonationIntent"
    by (simp add: DonationIntent_def)
  moreover from assms have "validate_field em ?f body = Inl Greater_than"
    by (simp add: validate_field_def)
  ultimately show ?thesis
    unfolding post_api_donations_def using post_rejects [of ?f] by fastforce
qed

theorem nonpositive_amount_rejected_witness:
  "(sample_donation(''amount'' \<mapsto> JNum (- 5))) ''amount'' = Some (JNum (- 5)) \<and> (- 5 :: real) \<le> 0 \<and>
   (\<exists>errs. post_api_donations contains_at create_document
             (sample_donation(''amount'' \<mapsto> JNum (- 5))) empty_store =
             (RequestValidationError errs, empty_store) \<and>
           (''amount'', Greater_than) \<in> set errs)"
  using nonpositive_amount_rejected
    [of "sample_donation(''amount'' \<mapsto> JNum (- 5))" "- 5" contains_at create_document empty_store]
  by simp

text \<open>
  C4. On each of the four intake endpoints, a body without the consent field (the
  compliance acknowledgement for a partner inquiry) fails validation with the field
  reported as missing, and the store is returned as it was. The field is declared as a
  required boolean: it has no default.
\<close>

theorem consent_required:
  assumes "(endpoint, schema, fld) \<in>
      {(post_api_donations em cd, DonationIntent, ''consent''),
       (post_api_volunteers em cd, VolunteerApplication, ''consent''),
       (post_api_partners em cd, PartnerInquiry, ''compliance_ack''),
       (post_api_contact em cd, ContactMessage, ''consent'')}"
    and "body fld = None"
  shows "Field fld TBool Required None \<in> set schema \<and>
         (\<exists>errs. endpoint body st = (RequestValidationError errs, st) \<and>
                 (fld, Missing) \<in> set errs)"
proof -
  let ?f = "Field fld TBool Required None"
  from assms(1) have mem: "?f \<in> set schema"
    by (auto simp: DonationIntent_def VolunteerApplication_def PartnerInquiry_def
        ContactMessage_def)
  from assms(2) have "validate_field em ?f body = Inl Missing"
    by (simp add: validate_field_def)
  from post_rejects [OF mem this]
  have "\<exists>errs. post em schema handler body st = (RequestValidationError errs, st) \<and>
               (fld, Missing) \<in> set errs" for handler
    by simp
  with assms(1) mem show ?thesis
    by (auto simp: post_api_donations_def post_api_volunteers_def post_api_partners_def
        post_api_contact_def)
qed

theorem consent_required_witness:
  "(sample_donation(''consent'' := None)) ''consent'' = None \<and>
   Field ''consent'' TBool Required None \<in> set DonationIntent \<and>
   (\<exists>errs. post_api_donations contains_at create_document
             (sample_donation(''consent'' := None)) empty_store =
             (RequestValidationError errs, empty_store) \<and>
           (''consent'', Missing) \<in> set errs) \<and>
   (sample_partner(''compliance_ack'' := None)) ''compliance_ack'' = None \<and>
   Field ''compliance_ack'' TBool Required None \<in> set PartnerInquiry \<and>
   (\<exists>errs. post_api_partners contains_at create_document
             (sample_partner(''compliance_ack'' := None)) empty_store =
             (RequestValidationError errs, empty_store) \<and>
           (''compliance_ack'', Missing) \<in> set errs)"
  using consent_required
    [of "post_api_donations contains_at create_document" DonationIntent "''consent''"
        contains_at create_document "sample_donation(''consent'' := None)" empty_store]
    consent_required
    [of "post_api_partners contains_at create_document" PartnerInquiry "''compliance_ack''"
        contains_at create_document "sample_partner(''compliance_ack'' := None)" empty_store]
  by simp

text \<open>
  C7. A donation whose email is a string that the address check refuses fails
  validation: the endpoint answers with a validation error (status 422, a client error)
  naming the email, not with a server error, and the store is returned as it was.
\<close>

theorem malformed_email_rejected:
  assumes "body ''email'' = Some (JStr e)" and "\<not> em e"
  shows "\<exists>errs. post_api_donations em cd body st = (RequestValidationError errs, st) \<and>
                (''email'', Invalid) \<in> set errs \<and>
                status_code (RequestValidationError errs) = 422"
proof -
  let ?f = "Field ''email'' TEmailStr Required None"
  have "?f \<in> set DonationIntent"
    by (simp add: DonationIntent_def)
  moreover from assms have "validate_field em ?f body = Inl Invalid"
    by (simp add: validate_field_def)
  ultimately show ?thesis
    unfolding post_api_donations_def using post_rejects [of ?f] by fastforce
qed

theorem malformed_email_rejected_witness:
  "(sample_donation(''email'' \<mapsto> JStr ''not-an-email'')) ''email'' = Some (JStr ''not-an-email'') \<and>
   \<not> contains_at ''not-an-email'' \<and>
   (\<exists>errs. post_api_donations contains_at create_document
             (sample_donation(''email'' \<mapsto> JStr ''not-an-email'')) empty_store =
             (RequestValidationError errs, empty_store) \<and>
           (''email'', Invalid) \<in> set errs \<and>
           status_code (RequestValidationError errs) = 422)"
  using malformed_email_rejected
    [of "sample_donation(''email'' \<mapsto> JStr ''not-an-email'')" "''not-an-email''" contains_at
        create_document empty_store]
  by (simp add: contains_at_def)

text \<open>
  C8, as the code has it. A value of \<^verbatim>\<open>DonationIntent.frequency\<close> outside its
  enumeration is rejected. The status of a volunteer application and of a partner
  inquiry is an optional literal: a value outside the enumeration is rejected unless it
  is \<^verbatim>\<open>null\<close>; with \<^verbatim>\<open>null\<close> the body is accepted whenever it is accepted without the
  status, and the handler receives the record with the status \<^verbatim>\<open>null\<close>.
\<close>

theorem enumeration_enforced:
  assumes "(endpoint, handler, schema, fld, literals, optional) \<in>
      {(post_api_donations em cd, create_donation cd, DonationIntent,
          ''frequency'', [''one_time'', ''monthly''], False),
       (post_api_volunteers em cd, create_volunteer cd, VolunteerApplication,
          ''status'', [''received'', ''screening'', ''accepted'', ''declined''], True),
       (post_api_partners em cd, create_partner cd, PartnerInquiry,
          ''status'', [''received'', ''in_discussion'', ''mou_draft'', ''closed''], True)}"
    and "body fld = Some v"
  shows "(v \<notin> JStr ` set literals \<and> (optional \<longrightarrow> v \<noteq> JNull) \<longrightarrow>
            (\<exists>errs. endpoint body st = (RequestValidationError errs, st) \<and>
                    (fld, Invalid) \<in> set errs)) \<and>
         (optional \<and> v = JNull \<longrightarrow>
            (\<forall>validated. validate em schema (body(fld := None)) = Inr validated \<longrightarrow>
               endpoint body st = handler (validated(fld \<mapsto> JNull)) st))"
proof (intro conjI impI allI)
  assume "v \<notin> JStr ` set literals \<and> (optional \<longrightarrow> v \<noteq> JNull)"
  moreover from assms(1) have "(endpoint, fld, literals, optional) \<in>
      {(post_api_donations em cd, ''frequency'', [''one_time'', ''monthly''], False),
       (post_api_volunteers em cd, ''status'',
          [''received'', ''screening'', ''accepted'', ''declined''], True),
       (post_api_partners em cd, ''status'',
          [''received'', ''in_discussion'', ''mou_draft'', ''closed''], True)}"
    by auto
  ultimately show "\<exists>errs. endpoint body st = (RequestValidationError errs, st) \<and>
                (fld, Invalid) \<in> set errs"
    using outside_enumeration_rejected [of endpoint fld literals optional em cd body v st]
      assms(2) by blast
next
  fix validated
  assume "optional \<and> v = JNull"
  then have null: "optional \<and> v = JNull" .
  assume "validate em schema (body(fld := None)) = Inr validated"
  then have valid: "validate em schema (body(fld := None)) = Inr validated" .
  from assms(1) null consider
    (volunteer) "endpoint = post_api_volunteers em cd" "handler = create_volunteer cd"
      "schema = VolunteerApplication" "fld = ''status''"
  | (partner) "endpoint = post_api_partners em cd" "handler = create_partner cd"
      "schema = PartnerInquiry" "fld = ''status''"
    by auto
  then show "endpoint body st = handler (validated(fld \<mapsto> JNull)) st"
  proof cases
    case volunteer
    from assms(2) null valid
    have "validate em VolunteerApplication body = Inr (validated(''status'' \<mapsto> JNull))"
      unfolding volunteer by (intro null_status_valid) simp_all
    then show ?thesis
      by (simp add: volunteer post_api_volunteers_def post_def)
  next
    case partner
    from assms(2) null valid
    have "validate em PartnerInquiry body = Inr (validated(''status'' \<mapsto> JNull))"
      unfolding partner by (intro null_status_valid) simp_all
    then show ?thesis
      by (simp add: partner post_api_partners_def post_def)
  qed
qed

theorem enumeration_enforced_witness:
  "(sample_volunteer(''status'' \<mapsto> JStr ''approved'')) ''status'' = Some (JStr ''approved'') \<and>
   JStr ''approved'' \<notin> JStr ` set [''received'', ''screening'', ''accepted'', ''declined''] \<and>
   JStr ''approved'' \<noteq> JNull \<and>
   (\<exists>errs. post_api_volunteers contains_at create_document
             (sample_volunteer(''status'' \<mapsto> JStr ''approved'')) empty_store =
             (RequestValidationError errs, empty_store) \<and>
           (''status'', Invalid) \<in> set errs) \<and>
   (sample_partner(''status'' \<mapsto> JNull)) ''status'' = Some JNull \<and>
   (\<exists>validated. validate contains_at PartnerInquiry (sample_partner(''status'' := None)) =
               Inr validated \<and>
             post_api_partners contains_at create_document
               (sample_partner(''status'' \<mapsto> JNull)) empty_store =
             create_partner create_document (validated(''status'' \<mapsto> JNull)) empty_store)"
proof -
  from enumeration_enforced
    [of "post_api_volunteers contains_at create_document" "create_volunteer create_document"
        VolunteerApplication "''status''"
        "[''received'', ''screening'', ''accepted'', ''declined'']" True
        contains_at create_document "sample_volunteer(''status'' \<mapsto> JStr ''approved'')"
        "JStr ''approved''" empty_store]
  have rejected: "\<exists>errs. post_api_volunteers contains_at create_document
             (sample_volunteer(''status'' \<mapsto> JStr ''approved'')) empty_store =
             (RequestValidationError errs, empty_store) \<and>
           (''status'', Invalid) \<in> set errs"
    by simp
  from sample_partner_validates
  obtain validated where valid:
    "validate contains_at PartnerInquiry (sample_partner(''status'' := None)) = Inr validated"
    by blast
  from enumeration_enforced
    [of "post_api_partners contains_at create_document" "create_partner create_document"
        PartnerInquiry "''status''"
        "[''received'', ''in_discussion'', ''mou_draft'', ''closed'']" True
        contains_at create_document "sample_partner(''status'' \<mapsto> JNull)"
        JNull empty_store] valid
  have "post_api_partners contains_at create_document
               (sample_partner(''status'' \<mapsto> JNull)) empty_store =
             create_partner create_document (validated(''status'' \<mapsto> JNull)) empty_store"
    by simp
  with valid rejected show ?thesis
    by auto
qed

text \<open>
  A volunteer application and a partner inquiry whose status is \<^verbatim>\<open>null\<close>, a value
  outside the enumeration, are accepted and stored with that status.
\<close>

theorem null_status_accepted:
  "fst (post_api_volunteers contains_at create_document
          (sample_volunteer(''status'' \<mapsto> JNull)) empty_store) =
     Created ''0'' ''Volunteer application received'' \<and>
   map (\<lambda>d. d ''status'')
     (colls (snd (post_api_volunteers contains_at create_document
                    (sample_volunteer(''status'' \<mapsto> JNull)) empty_store))
        ''volunteerapplication'') = [Some JNull] \<and>
   JNull \<notin> JStr ` set [''received'', ''screening'', ''accepted'', ''declined''] \<and>
   fst (post_api_partners contains_at create_document
          (sample_partner(''status'' \<mapsto> JNull)) empty_store) =
     Created ''0'' ''Partner inquiry submitted'' \<and>
   map (\<lambda>d. d ''status'')
     (colls (snd (post_api_partners contains_at create_document
                    (sample_partner(''status'' \<mapsto> JNull)) empty_store))
        ''partnerinquiry'') = [Some JNull] \<and>
   JNull \<notin> JStr ` set [''received'', ''in_discussion'', ''mou_draft'', ''closed'']"
  by (simp add: post_api_volunteers_def post_api_partners_def post_def validate_def
      VolunteerApplication_def PartnerInquiry_def validate_field_def sample_volunteer_def
      sample_partner_def empty_store_def create_volunteer_def create_partner_def
      create_document_def contains_at_def string_of_nat.simps)

text \<open>
  C5, as the code has it. When the insert function raises, each of the four create
  handlers answers with status 500 and the text of the exception as its detail, in full:
  the text is not shortened. The store is left as the one failed call left it: the
  insert is attempted once.
\<close>

theorem insert_failure_is_500:
  assumes "(handler, collection_name) \<in>
      {(create_donation, ''donationintent''), (create_volunteer, ''volunteerapplication''),
       (create_partner, ''partnerinquiry''), (create_contact, ''contactmessage'')}"
    and "cd collection_name record st = (Inl e, st')"
  shows "handler cd record st = (HTTPException 500 e, st') \<and>
         status_code (fst (handler cd record st)) = 500"
  using assms
  by (auto simp: create_donation_def create_volunteer_def create_partner_def
      create_contact_def)

theorem insert_failure_is_500_witness:
  "create_document ''donationintent'' sample_donation (failing_store long_text) =
     (Inl long_text, (failing_store long_text)\<lparr>inserts := 1\<rparr>) \<and>
   create_donation create_document sample_donation (failing_store long_text) =
     (HTTPException 500 long_text, (failing_store long_text)\<lparr>inserts := 1\<rparr>) \<and>
   colls ((failing_store long_text)\<lparr>inserts := 1\<rparr>) ''donationintent'' = []"
  using insert_failure_is_500
    [of create_donation "''donationintent''" create_document sample_donation
        "failing_store long_text" long_text "(failing_store long_text)\<lparr>inserts := 1\<rparr>"]
  by (simp add: create_document_def failing_store_def)

text \<open>
  An error text of 130 code points is the detail of the response as it is; it is cut
  neither to 80 nor to 120 code points, the lengths that the diagnostic endpoint uses.
\<close>

theorem error_text_not_truncated:
  "fst (create_donation create_document sample_donation (failing_store long_text)) =
     HTTPException 500 long_text \<and>
   length long_text = 130 \<and>
   long_text \<noteq> take 120 long_text \<and>
   long_text \<noteq> take 80 long_text"
proof -
  have "long_text \<noteq> take n long_text" if "n < 130" for n
  proof
    assume "long_text = take n long_text"
    then have "length long_text = length (take n long_text)"
      by (rule arg_cong)
    with that show False
      by (simp add: long_text_def)
  qed
  then have "long_text \<noteq> take 120 long_text" and "long_text \<noteq> take 80 long_text"
    by simp_all
  moreover have "fst (create_donation create_document sample_donation (failing_store long_text)) =
     HTTPException 500 long_text"
    by (simp add: create_donation_def create_document_def failing_store_def)
  moreover have "length long_text = 130"
    by (simp add: long_text_def)
  ultimately show ?thesis
    by simp
qed

section \<open>The diagnostic endpoint\<close>

text \<open>
  C6. In every environment the diagnostic endpoint answers with status 200 and a
  report: a failure of a diagnostic step ends up in the \<open>database\<close> field, cut to 120
  or 80 code points, and nothing is raised. With no database handle the report reads
  ``Available but not initialized'' under a warning sign, the connection status is
  ``Not Connected'', and no name, URL state or collection is reported.
\<close>

theorem diagnostic_never_fails:
  "fst (get_test env) = 200 \<and>
   backend (snd (get_test env)) = check_mark @ ascii '' Running'' \<and>
   database (snd (get_test env)) =
     (case db env of
        None \<Rightarrow> warning_sign @ ascii '' Available but not initialized''
      | Some h \<Rightarrow>
          (case name_attr h of
             Inl e \<Rightarrow> cross_mark @ ascii '' Error: '' @ take 120 e
           | Inr n \<Rightarrow>
               (case list_collection_names h of
                  Inl e \<Rightarrow> warning_sign @ ascii '' Connected but Error: '' @ take 80 e
                | Inr cs \<Rightarrow> check_mark @ ascii '' Connected & Working''))) \<and>
   (db env = None \<longrightarrow>
      snd (get_test env) =
        \<lparr>backend = check_mark @ ascii '' Running'',
         database = warning_sign @ ascii '' Available but not initialized'',
         database_url = None, database_name = None,
         connection_status = ascii ''Not Connected'', collections = []\<rparr>)"
  by (simp add: get_test_def test_database_def test_database_try_def probe_collections_def
      split: option.splits sum.splits)

theorem diagnostic_never_fails_witness:
  "db no_database = None \<and>
   get_test no_database =
     (200,
      \<lparr>backend = check_mark @ ascii '' Running'',
       database = warning_sign @ ascii '' Available but not initialized'',
       database_url = None, database_name = None,
       connection_status = ascii ''Not Connected'', collections = []\<rparr>)"
  using diagnostic_never_fails [of no_database]
  by (simp add: no_database_def prod_eq_iff)

end
